theory Spec2Isabelle
  imports Main "HOL-Library.Word"
begin

unbundle bit_operations_syntax

section \<open>The identifier type of the driver\<close>

text \<open>
  The repository is a Go package over the MongoDB driver. The driver's identifier type
  \<^verbatim>\<open>primitive.ObjectID\<close> is \<^verbatim>\<open>[12]byte\<close>: an array of exactly twelve bytes,
  compared with \<^verbatim>\<open>==\<close>, whose zero value is \<^verbatim>\<open>primitive.NilObjectID\<close>.
\<close>

type_synonym byte = "8 word"

typedef ObjectID = "{bs :: byte list. length bs = 12}"
  by (rule exI [of _ "replicate 12 0"]) simp

definition NilObjectID :: ObjectID where
  "NilObjectID = Abs_ObjectID (replicate 12 0)"

text \<open>
  \<^verbatim>\<open>var oid [12]byte; copy(oid[:], b)\<close>: the bytes of \<open>b\<close> that fit are copied over a
  zeroed array.
\<close>

definition copy_oid :: "byte list \<Rightarrow> ObjectID" where
  "copy_oid b = Abs_ObjectID (take 12 b @ replicate (12 - length b) 0)"

subsection \<open>Hexadecimal encoding (encoding/hex)\<close>

text \<open>
  \<^verbatim>\<open>const hextable = "0123456789abcdef"\<close> and, for every byte \<open>v\<close> of the source,
  \<^verbatim>\<open>dst[j] = hextable[v>>4]; dst[j+1] = hextable[v&0x0f]\<close>. Both indices are below 16.
\<close>

definition hextable :: string where
  "hextable = ''0123456789abcdef''"

definition encode_byte :: "byte \<Rightarrow> string" where
  "encode_byte v = [hextable ! unat (drop_bit 4 v), hextable ! unat (v AND 0x0f)]"

definition EncodeToString :: "byte list \<Rightarrow> string" where
  "EncodeToString src = concat (map encode_byte src)"

text \<open>
  \<^verbatim>\<open>fromHexChar\<close> accepts the digits and the letters a-f in both cases:
  \<^verbatim>\<open>
  case '0' <= c && c <= '9': return c - '0', true
  case 'a' <= c && c <= 'f': return c - 'a' + 10, true
  case 'A' <= c && c <= 'F': return c - 'A' + 10, true
  return 0, false
  \<close>
\<close>

definition fromHexChar :: "char \<Rightarrow> byte option" where
  "fromHexChar ch =
     (let c = (of_char ch :: byte) in
      if 0x30 \<le> c \<and> c \<le> 0x39 then Some (c - 0x30)
      else if 0x61 \<le> c \<and> c \<le> 0x66 then Some (c - 0x61 + 10)
      else if 0x41 \<le> c \<and> c \<le> 0x46 then Some (c - 0x41 + 10)
      else None)"

text \<open>
  \<^verbatim>\<open>hex.Decode\<close> reads the text two characters at a time and stops at the first
  character that is no hexadecimal digit; a text of odd length is an error. Each pair
  gives the byte \<^verbatim>\<open>(a << 4) | b\<close>.
\<close>

fun Decode :: "string \<Rightarrow> byte list option" where
  "Decode [] = Some []"
| "Decode [p] = None"
| "Decode (p # q # rest) =
     (case fromHexChar p of
        None \<Rightarrow> None
      | Some a \<Rightarrow>
          (case fromHexChar q of
             None \<Rightarrow> None
           | Some b \<Rightarrow>
               (case Decode rest of
                  None \<Rightarrow> None
                | Some bs \<Rightarrow> Some ((push_bit 4 a OR b) # bs))))"

section \<open>Errors and panics\<close>

text \<open>
  The package's sentinel errors (\<^verbatim>\<open>var ( ErrorAlreadyExists = errors.New(...) ... )\<close>),
  followed by the errors of the driver that reach this code: the identifier decoder's
  error, the "no documents" error of a lookup, and any other store error with its detail.
\<close>

datatype error =
    ErrorAlreadyExists
  | ErrorInsertFailed
  | ErrorGetFailed
  | ErrorDeleteFailed
  | ErrorUpdateFailed
  | ErrorIdBlank
  | ErrorValueNotPointer
  | ErrorValueNotStruct
  | ErrInvalidHex
  | ErrNoDocuments
  | DriverError string

text \<open>
  The run-time panics of the reflection calls: \<^verbatim>\<open>Elem\<close> and \<^verbatim>\<open>FieldByName\<close> on
  a value of the wrong kind, \<^verbatim>\<open>Interface\<close> on the zero \<^verbatim>\<open>reflect.Value\<close>, and a
  failed single-value type assertion.
\<close>

datatype panic =
    PanicElemOfNonPointer
  | PanicFieldOfNonStruct
  | PanicInterfaceOfZeroValue
  | PanicTypeAssertion

subsection \<open>primitive.ObjectIDFromHex and ObjectID.Hex\<close>

text \<open>
  Modelled from the spec: the driver's decoder is not among the sources. The spec's
  identifier is "12-byte, hex-encodable", and a failed decoding yields "the type's nil/zero
  identifier"; the driver does that as
  \<^verbatim>\<open>
  if len(s) != 24 { return NilObjectID, ErrInvalidHex }
  var oid [12]byte
  _, err := hex.Decode(oid[:], []byte(s))
  if err != nil { return NilObjectID, err }
  return oid, nil
  \<close>
  Every caller in the package discards the error, so the model keeps one error value for
  both failures.
\<close>

definition ObjectIDFromHex :: "string \<Rightarrow> ObjectID \<times> error option" where
  "ObjectIDFromHex s =
     (if length s \<noteq> 24 then (NilObjectID, Some ErrInvalidHex)
      else case Decode s of
             None \<Rightarrow> (NilObjectID, Some ErrInvalidHex)
           | Some b \<Rightarrow> (copy_oid b, None))"

text \<open>\<^verbatim>\<open>func (id ObjectID) Hex() string\<close> is \<^verbatim>\<open>hex.EncodeToString(id[:])\<close>.\<close>

definition Hex :: "ObjectID \<Rightarrow> string" where
  "Hex oid = EncodeToString (Rep_ObjectID oid)"

section \<open>Go values and reflection\<close>

text \<open>
  The argument of \<^verbatim>\<open>NewItem\<close> and \<^verbatim>\<open>UpdateItem\<close> is an \<^verbatim>\<open>interface{}\<close>: any Go
  value. \<open>NilV\<close> is the nil interface, \<open>PtrV None\<close> a typed nil pointer,
  \<open>PtrV (Some v)\<close> a pointer to \<open>v\<close>, and a struct is the list of its fields by name.
\<close>

datatype go_value =
    NilV
  | BoolV bool
  | IntV int
  | StringV string
  | ObjectIDV ObjectID
  | StructV "(string \<times> go_value) list"
  | PtrV "go_value option"

datatype reflect_Kind =
    reflect_Invalid
  | reflect_Bool
  | reflect_Int
  | reflect_String
  | reflect_Array
  | reflect_Struct
  | reflect_Ptr
  | reflect_Interface

text \<open>
  A \<^verbatim>\<open>reflect.Value\<close> is the zero Value or stands for a Go value.
  \<^verbatim>\<open>reflect.ValueOf(nil)\<close> is the zero Value, whose kind is \<^verbatim>\<open>Invalid\<close>; an
  \<^verbatim>\<open>ObjectID\<close> is an array.
\<close>

datatype reflect_Value = ZeroValue | Val go_value

definition ValueOf :: "go_value \<Rightarrow> reflect_Value" where
  "ValueOf i = (case i of NilV \<Rightarrow> ZeroValue | _ \<Rightarrow> Val i)"

fun Kind :: "reflect_Value \<Rightarrow> reflect_Kind" where
  "Kind ZeroValue = reflect_Invalid"
| "Kind (Val NilV) = reflect_Interface"
| "Kind (Val (BoolV _)) = reflect_Bool"
| "Kind (Val (IntV _)) = reflect_Int"
| "Kind (Val (StringV _)) = reflect_String"
| "Kind (Val (ObjectIDV _)) = reflect_Array"
| "Kind (Val (StructV _)) = reflect_Struct"
| "Kind (Val (PtrV _)) = reflect_Ptr"

text \<open>
  \<^verbatim>\<open>Elem\<close> of a nil pointer is the zero Value; of a value that is no pointer it
  panics.
\<close>

fun Elem :: "reflect_Value \<Rightarrow> panic + reflect_Value" where
  "Elem (Val (PtrV None)) = Inr ZeroValue"
| "Elem (Val (PtrV (Some v))) = Inr (Val v)"
| "Elem _ = Inl PanicElemOfNonPointer"

text \<open>\<^verbatim>\<open>FieldByName\<close> returns the zero Value when the struct has no field of that name.\<close>

fun FieldByName :: "reflect_Value \<Rightarrow> string \<Rightarrow> panic + reflect_Value" where
  "FieldByName (Val (StructV fs)) n =
     (case map_of fs n of None \<Rightarrow> Inr ZeroValue | Some x \<Rightarrow> Inr (Val x))"
| "FieldByName _ n = Inl PanicFieldOfNonStruct"

fun Interface :: "reflect_Value \<Rightarrow> panic + go_value" where
  "Interface ZeroValue = Inl PanicInterfaceOfZeroValue"
| "Interface (Val v) = Inr v"

text \<open>The type assertion \<^verbatim>\<open>x.(primitive.ObjectID)\<close>, in its panicking form.\<close>

fun assert_ObjectID :: "go_value \<Rightarrow> panic + ObjectID" where
  "assert_ObjectID (ObjectIDV oid) = Inr oid"
| "assert_ObjectID _ = Inl PanicTypeAssertion"

text \<open>
  The expression \<^verbatim>\<open>tgt.FieldByName("ID").Interface().(primitive.ObjectID)\<close>, which
  \<^verbatim>\<open>NewItem\<close> and \<^verbatim>\<open>UpdateItem\<close> evaluate more than once.
\<close>

definition field_ID :: "reflect_Value \<Rightarrow> panic + ObjectID" where
  "field_ID tgt =
     (case FieldByName tgt ''ID'' of
        Inl p \<Rightarrow> Inl p
      | Inr f \<Rightarrow> (case Interface f of Inl p \<Rightarrow> Inl p | Inr x \<Rightarrow> assert_ObjectID x))"

section \<open>Documents, contexts and the store handle\<close>

text \<open>\<^verbatim>\<open>bson.D\<close> is an ordered list of \<^verbatim>\<open>primitive.E{Key, Value}\<close>.\<close>

record E =
  Key :: string
  Value :: go_value

type_synonym D = "E list"

text \<open>
  A \<^verbatim>\<open>context.Context\<close> by the way it was made. A \<^verbatim>\<open>time.Duration\<close> counts
  nanoseconds; \<^verbatim>\<open>time.Second\<close> is \<open>10\<^sup>9\<close> of them.
\<close>

type_synonym Duration = int

definition Second :: Duration where
  "Second = 1000000000"

datatype Context =
    Background
  | TODO
  | WithCancel Context
  | WithTimeout Context Duration

text \<open>
  \<^verbatim>\<open>*mongo.SingleResult\<close>: the lazy handle of a lookup, holding the lookup's error and
  the raw document. \<^verbatim>\<open>Err()\<close> reads the error.
\<close>

record SingleResult =
  err :: "error option"
  rdr :: D

definition Err :: "SingleResult \<Rightarrow> error option" where
  "Err sr = err sr"

record InsertOneResult =
  InsertedID :: go_value

record UpdateResult =
  MatchedCount :: int
  ModifiedCount :: int
  UpsertedCount :: int

record DeleteResult =
  DeletedCount :: int

text \<open>
  \<^verbatim>\<open>type mongoCollection interface { InsertOne; FindOne; ReplaceOne; DeleteOne }\<close>: any
  implementation, the driver's collection or a test double, over its own state \<open>'s\<close>.
  A lookup hands back a result handle (the driver never returns a nil one); the other
  three return an acknowledgement and an error. A handle reads the record it is given
  and does not write through the pointer, as the driver, which marshals the record, does
  not: the record is the same value before and after a call.
\<close>

record 's mongoCollection =
  InsertOne :: "Context \<Rightarrow> go_value \<Rightarrow> 's \<Rightarrow> (InsertOneResult option \<times> error option) \<times> 's"
  FindOne :: "Context \<Rightarrow> D \<Rightarrow> 's \<Rightarrow> SingleResult \<times> 's"
  ReplaceOne :: "Context \<Rightarrow> D \<Rightarrow> go_value \<Rightarrow> 's \<Rightarrow> (UpdateResult option \<times> error option) \<times> 's"
  DeleteOne :: "Context \<Rightarrow> D \<Rightarrow> 's \<Rightarrow> (DeleteResult option \<times> error option) \<times> 's"

record 's DatabaseCollection =
  name :: string
  collection :: "'s mongoCollection"

text \<open>
  The world a collection operation runs in: the state of the store behind the handle,
  and the list of the calls made on the handle so far, each with its arguments.
\<close>

datatype call =
    CallInsertOne Context go_value
  | CallFindOne Context D
  | CallReplaceOne Context D go_value
  | CallDeleteOne Context D

record 's world =
  store :: 's
  calls :: "call list"

definition call_InsertOne ::
  "'s DatabaseCollection \<Rightarrow> Context \<Rightarrow> go_value \<Rightarrow> 's world \<Rightarrow>
     (InsertOneResult option \<times> error option) \<times> 's world" where
  "call_InsertOne c ctx doc w =
     (let (r, s') = InsertOne (collection c) ctx doc (store w)
      in (r, \<lparr>store = s', calls = calls w @ [CallInsertOne ctx doc]\<rparr>))"

definition call_FindOne ::
  "'s DatabaseCollection \<Rightarrow> Context \<Rightarrow> D \<Rightarrow> 's world \<Rightarrow> SingleResult \<times> 's world" where
  "call_FindOne c ctx flt w =
     (let (r, s') = FindOne (collection c) ctx flt (store w)
      in (r, \<lparr>store = s', calls = calls w @ [CallFindOne ctx flt]\<rparr>))"

definition call_ReplaceOne ::
  "'s DatabaseCollection \<Rightarrow> Context \<Rightarrow> D \<Rightarrow> go_value \<Rightarrow> 's world \<Rightarrow>
     (UpdateResult option \<times> error option) \<times> 's world" where
  "call_ReplaceOne c ctx flt doc w =
     (let (r, s') = ReplaceOne (collection c) ctx flt doc (store w)
      in (r, \<lparr>store = s', calls = calls w @ [CallReplaceOne ctx flt doc]\<rparr>))"

definition call_DeleteOne ::
  "'s DatabaseCollection \<Rightarrow> Context \<Rightarrow> D \<Rightarrow> 's world \<Rightarrow>
     (DeleteResult option \<times> error option) \<times> 's world" where
  "call_DeleteOne c ctx flt w =
     (let (r, s') = DeleteOne (collection c) ctx flt (store w)
      in (r, \<lparr>store = s', calls = calls w @ [CallDeleteOne ctx flt]\<rparr>))"

section \<open>The collection operations (collection.go)\<close>

text \<open>
  \<^verbatim>\<open>
  switch by {
  case "_id", "id":
      objID, _ := primitive.ObjectIDFromHex(value)
      filter = bson.D{{Key: "_id", Value: objID}}
  default:
      filter = bson.D{primitive.E{Key: by, Value: value}}
  }
  result := c.collection.FindOne(ctx, filter)
  return result.Err() == nil
  \<close>
\<close>

definition ItemExists ::
  "'s DatabaseCollection \<Rightarrow> Context \<Rightarrow> string \<Rightarrow> string \<Rightarrow> 's world \<Rightarrow> bool \<times> 's world" where
  "ItemExists c ctx by' val w =
     (let flt =
        (if by' = ''_id'' \<or> by' = ''id''
         then (let (objID, _) = ObjectIDFromHex val
               in [\<lparr>Key = ''_id'', Value = ObjectIDV objID\<rparr>])
         else [\<lparr>Key = by', Value = StringV val\<rparr>]);
        (result, w') = call_FindOne c ctx flt w
      in (Err result = None, w'))"

text \<open>
  \<^verbatim>\<open>GetItem\<close> has the same switch, then
  \<^verbatim>\<open>
  item := c.collection.FindOne(ctx, filter)
  if item.Err() != nil { return nil, ErrorGetFailed }
  return item, nil
  \<close>
\<close>

definition GetItem ::
  "'s DatabaseCollection \<Rightarrow> Context \<Rightarrow> string \<Rightarrow> string \<Rightarrow> 's world \<Rightarrow>
     (SingleResult option \<times> error option) \<times> 's world" where
  "GetItem c ctx by' val w =
     (let flt =
        (if by' = ''_id'' \<or> by' = ''id''
         then (let (objID, _) = ObjectIDFromHex val
               in [\<lparr>Key = ''_id'', Value = ObjectIDV objID\<rparr>])
         else [\<lparr>Key = by', Value = StringV val\<rparr>]);
        (item, w') = call_FindOne c ctx flt w
      in if Err item \<noteq> None then ((None, Some ErrorGetFailed), w')
         else ((Some item, None), w'))"

text \<open>
  \<^verbatim>\<open>NewItem\<close>: the two kind checks, the blank-identifier check, the insert, the
  re-fetch. A panic of a reflection call ends the operation where it happens.
\<close>

definition NewItem ::
  "'s DatabaseCollection \<Rightarrow> Context \<Rightarrow> go_value \<Rightarrow> 's world \<Rightarrow>
     (panic + SingleResult option \<times> error option) \<times> 's world" where
  "NewItem c ctx i w =
     (let rv = ValueOf i in
      if Kind rv \<noteq> reflect_Ptr then (Inr (None, Some ErrorValueNotPointer), w)
      else (case Elem rv of
        Inl p \<Rightarrow> (Inl p, w)
      | Inr tgt \<Rightarrow>
          if Kind tgt \<noteq> reflect_Struct then (Inr (None, Some ErrorValueNotStruct), w)
          else (case field_ID tgt of
            Inl p \<Rightarrow> (Inl p, w)
          | Inr oid \<Rightarrow>
              if oid = NilObjectID then (Inr (None, Some ErrorIdBlank), w)
              else
                (let ((_, e), w1) = call_InsertOne c ctx i w in
                 if e \<noteq> None then (Inr (None, Some ErrorInsertFailed), w1)
                 else (case field_ID tgt of
                   Inl p \<Rightarrow> (Inl p, w1)
                 | Inr oid' \<Rightarrow>
                     (let (r, w2) = GetItem c ctx ''id'' (Hex oid') w1 in (Inr r, w2)))))))"

text \<open>
  \<^verbatim>\<open>UpdateItem\<close>: the same three checks, then
  \<^verbatim>\<open>
  id := tgt.FieldByName("ID").Interface().(primitive.ObjectID)
  filter := bson.D{{Key: "_id", Value: id}}
  _, err := c.collection.ReplaceOne(ctx, filter, i)
  if err != nil { return nil, ErrorUpdateFailed }
  return c.GetItem(ctx, "id", tgt.FieldByName("ID").Interface().(primitive.ObjectID).Hex())
  \<close>
\<close>

definition UpdateItem ::
  "'s DatabaseCollection \<Rightarrow> Context \<Rightarrow> go_value \<Rightarrow> 's world \<Rightarrow>
     (panic + SingleResult option \<times> error option) \<times> 's world" where
  "UpdateItem c ctx i w =
     (let rv = ValueOf i in
      if Kind rv \<noteq> reflect_Ptr then (Inr (None, Some ErrorValueNotPointer), w)
      else (case Elem rv of
        Inl p \<Rightarrow> (Inl p, w)
      | Inr tgt \<Rightarrow>
          if Kind tgt \<noteq> reflect_Struct then (Inr (None, Some ErrorValueNotStruct), w)
          else (case field_ID tgt of
            Inl p \<Rightarrow> (Inl p, w)
          | Inr oid \<Rightarrow>
              if oid = NilObjectID then (Inr (None, Some ErrorIdBlank), w)
              else (case field_ID tgt of
                Inl p \<Rightarrow> (Inl p, w)
              | Inr id' \<Rightarrow>
                  (let flt = [\<lparr>Key = ''_id'', Value = ObjectIDV id'\<rparr>];
                       ((_, e), w1) = call_ReplaceOne c ctx flt i w in
                   if e \<noteq> None then (Inr (None, Some ErrorUpdateFailed), w1)
                   else (case field_ID tgt of
                     Inl p \<Rightarrow> (Inl p, w1)
                   | Inr oid' \<Rightarrow>
                       (let (r, w2) = GetItem c ctx ''id'' (Hex oid') w1 in (Inr r, w2))))))))"

text \<open>
  \<^verbatim>\<open>
  ctx, cancel := context.WithTimeout(context.Background(), 3*time.Second)
  defer cancel()
  filter := bson.D{{Key: "_id", Value: id}}
  _, err := c.collection.DeleteOne(ctx, filter)
  if err != nil { return ErrorDeleteFailed }
  return nil
  \<close>
  The deferred \<^verbatim>\<open>cancel\<close> releases the timer and changes neither the store nor the
  returned value.
\<close>

definition DeleteItem ::
  "'s DatabaseCollection \<Rightarrow> ObjectID \<Rightarrow> 's world \<Rightarrow> error option \<times> 's world" where
  "DeleteItem c oid w =
     (let ctx = WithTimeout Background (3 * Second);
          flt = [\<lparr>Key = ''_id'', Value = ObjectIDV oid\<rparr>];
          ((_, e), w') = call_DeleteOne c ctx flt w
      in if e \<noteq> None then (Some ErrorDeleteFailed, w') else (None, w'))"

section \<open>The filter as the specification words it\<close>

text \<open>
  The specification's identity-filter construction, word for word: for the lookup key
  \<open>_id\<close> or \<open>id\<close>, decode the value as a hex string into the identifier type and, if
  decoding fails, build the filter against the nil identifier; for any other key, build
  the equality filter on the literal field name.
\<close>

definition identity_filter :: "string \<Rightarrow> string \<Rightarrow> D" where
  "identity_filter key val =
     (if key = ''_id'' \<or> key = ''id''
      then (case ObjectIDFromHex val of
              (oid, None) \<Rightarrow> [\<lparr>Key = ''_id'', Value = ObjectIDV oid\<rparr>]
            | (_, Some _) \<Rightarrow> [\<lparr>Key = ''_id'', Value = ObjectIDV NilObjectID\<rparr>])
      else [\<lparr>Key = key, Value = StringV val\<rparr>])"

text \<open>
  A valid hex encoding of a 12-byte identifier: twenty-four characters, each a
  hexadecimal digit in either case.
\<close>

definition is_hex_digit :: "char \<Rightarrow> bool" where
  "is_hex_digit ch \<longleftrightarrow> ch \<in> set ''0123456789abcdefABCDEF''"

definition is_ObjectID_hex :: "string \<Rightarrow> bool" where
  "is_ObjectID_hex s \<longleftrightarrow> length s = 24 \<and> list_all is_hex_digit s"

section \<open>Two store handles to run the operations on\<close>

text \<open>
  An in-memory handle: the store is a list of documents by identifier. A lookup, a
  replace and a delete look at the \<open>_id\<close> of a one-element filter; a replace or a delete
  that matches nothing acknowledges zero documents and is no error, as in the driver.
\<close>

type_synonym mem = "(ObjectID \<times> go_value) list"

definition filter_id :: "D \<Rightarrow> ObjectID option" where
  "filter_id flt =
     (case flt of
        [e] \<Rightarrow> (if Key e = ''_id''
                then (case Value e of ObjectIDV oid \<Rightarrow> Some oid | _ \<Rightarrow> None)
                else None)
      | _ \<Rightarrow> None)"

definition mem_InsertOne ::
  "Context \<Rightarrow> go_value \<Rightarrow> mem \<Rightarrow> (InsertOneResult option \<times> error option) \<times> mem" where
  "mem_InsertOne ctx doc s =
     (case Elem (ValueOf doc) of
        Inl _ \<Rightarrow> ((None, Some (DriverError ''cannot marshal'')), s)
      | Inr tgt \<Rightarrow>
          (case field_ID tgt of
             Inl _ \<Rightarrow> ((None, Some (DriverError ''cannot marshal'')), s)
           | Inr oid \<Rightarrow>
               if map_of s oid \<noteq> None then ((None, Some (DriverError ''duplicate key'')), s)
               else ((Some \<lparr>InsertedID = ObjectIDV oid\<rparr>, None), s @ [(oid, doc)])))"

definition mem_FindOne :: "Context \<Rightarrow> D \<Rightarrow> mem \<Rightarrow> SingleResult \<times> mem" where
  "mem_FindOne ctx flt s =
     (case filter_id flt of
        None \<Rightarrow> (\<lparr>err = Some ErrNoDocuments, rdr = []\<rparr>, s)
      | Some oid \<Rightarrow>
          (case map_of s oid of
             None \<Rightarrow> (\<lparr>err = Some ErrNoDocuments, rdr = []\<rparr>, s)
           | Some doc \<Rightarrow> (\<lparr>err = None, rdr = [\<lparr>Key = ''_id'', Value = ObjectIDV oid\<rparr>]\<rparr>, s)))"

definition mem_ReplaceOne ::
  "Context \<Rightarrow> D \<Rightarrow> go_value \<Rightarrow> mem \<Rightarrow> (UpdateResult option \<times> error option) \<times> mem" where
  "mem_ReplaceOne ctx flt doc s =
     (case filter_id flt of
        None \<Rightarrow> ((Some \<lparr>MatchedCount = 0, ModifiedCount = 0, UpsertedCount = 0\<rparr>, None), s)
      | Some oid \<Rightarrow>
          if map_of s oid = None
          then ((Some \<lparr>MatchedCount = 0, ModifiedCount = 0, UpsertedCount = 0\<rparr>, None), s)
          else ((Some \<lparr>MatchedCount = 1, ModifiedCount = 1, UpsertedCount = 0\<rparr>, None),
                map (\<lambda>(k, v). if k = oid then (k, doc) else (k, v)) s))"

definition mem_DeleteOne ::
  "Context \<Rightarrow> D \<Rightarrow> mem \<Rightarrow> (DeleteResult option \<times> error option) \<times> mem" where
  "mem_DeleteOne ctx flt s =
     (case filter_id flt of
        None \<Rightarrow> ((Some \<lparr>DeletedCount = 0\<rparr>, None), s)
      | Some oid \<Rightarrow>
          if map_of s oid = None then ((Some \<lparr>DeletedCount = 0\<rparr>, None), s)
          else ((Some \<lparr>DeletedCount = 1\<rparr>, None), filter (\<lambda>(k, v). k \<noteq> oid) s))"

definition mem_collection :: "mem DatabaseCollection" where
  "mem_collection =
     \<lparr>name = ''items'',
      collection = \<lparr>InsertOne = mem_InsertOne, FindOne = mem_FindOne,
                    ReplaceOne = mem_ReplaceOne, DeleteOne = mem_DeleteOne\<rparr>\<rparr>"

text \<open>A handle whose store cannot be reached: every operation reports the same error.\<close>

definition down_collection :: "unit DatabaseCollection" where
  "down_collection =
     \<lparr>name = ''items'',
      collection =
        \<lparr>InsertOne = (\<lambda>ctx doc s. ((None, Some (DriverError ''connection refused'')), s)),
         FindOne = (\<lambda>ctx flt s. (\<lparr>err = Some (DriverError ''connection refused''), rdr = []\<rparr>, s)),
         ReplaceOne = (\<lambda>ctx flt doc s. ((None, Some (DriverError ''connection refused'')), s)),
         DeleteOne = (\<lambda>ctx flt s. ((None, Some (DriverError ''connection refused'')), s))\<rparr>\<rparr>"

text \<open>An identifier that is not nil, and a record carrying it.\<close>

definition oid1 :: ObjectID where
  "oid1 = copy_oid [0x5f, 0x1a]"

definition item1 :: go_value where
  "item1 = PtrV (Some (StructV [(''ID'', ObjectIDV oid1), (''Name'', StringV ''one'')]))"

definition blank_item :: go_value where
  "blank_item = PtrV (Some (StructV [(''ID'', ObjectIDV NilObjectID), (''Name'', StringV ''none'')]))"

definition w0 :: "mem world" where
  "w0 = \<lparr>store = [], calls = []\<rparr>"

definition d0 :: "unit world" where
  "d0 = \<lparr>store = (), calls = []\<rparr>"

text \<open>What the store behind the handle answers to a lookup with a given filter.\<close>

abbreviation store_answer ::
  "'s DatabaseCollection \<Rightarrow> Context \<Rightarrow> D \<Rightarrow> 's world \<Rightarrow> SingleResult" where
  "store_answer c ctx flt w \<equiv> fst (FindOne (collection c) ctx flt (store w))"

definition nil_filter :: D where
  "nil_filter = [\<lparr>Key = ''_id'', Value = ObjectIDV NilObjectID\<rparr>]"

definition w_nil :: "mem world" where
  "w_nil = \<lparr>store = [(NilObjectID, blank_item)], calls = []\<rparr>"

definition w_one :: "mem world" where
  "w_one = \<lparr>store = [(oid1, item1)], calls = []\<rparr>"

section \<open>The client and its bootstrap\<close>

text \<open>
  The repository holds the client file in two versions. The one modelled here is the one
  whose \<^verbatim>\<open>NewStorage\<close> also discovers the collections of the database; in the other,
  \<^verbatim>\<open>NewStorage\<close> ends after binding the database, with the same two failure exits.

  The logger is a \<^verbatim>\<open>*zap.Logger\<close>: it carries the fields given to \<^verbatim>\<open>With\<close> and
  writes entries to a sink. The sink is the list of the entries written so far.
\<close>

datatype Field = zap_String string string | zap_Error error

datatype Level = InfoLevel | WarnLevel | ErrorLevel

record Entry =
  entry_level :: Level
  entry_message :: string
  entry_fields :: "Field list"

record Logger =
  logger_fields :: "Field list"

definition With :: "Logger \<Rightarrow> Field list \<Rightarrow> Logger" where
  "With l fs = l\<lparr>logger_fields := logger_fields l @ fs\<rparr>"

definition write_entry :: "Logger option \<Rightarrow> Level \<Rightarrow> string \<Rightarrow> Field list \<Rightarrow> Entry" where
  "write_entry l lv msg fs =
     \<lparr>entry_level = lv, entry_message = msg,
      entry_fields = (case l of None \<Rightarrow> [] | Some lg \<Rightarrow> logger_fields lg) @ fs\<rparr>"

record DatabaseConfiguration =
  DatabaseUser :: string
  DatabasePassword :: string
  DatabaseConnectionUrl :: string
  DatabaseName :: string

text \<open>
  \<^verbatim>\<open>type DatabaseClient struct { Instance *mongo.Client; Database *mongo.Database;
  Collections []*DatabaseCollection; logger *zap.Logger }\<close>. A nil pointer is \<open>None\<close>.
\<close>

record ('cl, 'db, 's) DatabaseClient =
  Instance :: "'cl option"
  Database :: "'db option"
  Collections :: "'s DatabaseCollection list"
  logger :: "Logger option"

text \<open>
  The calls \<^verbatim>\<open>NewStorage\<close> makes on the driver, over the state \<open>'e\<close> of the world
  outside (the network, the server): \<^verbatim>\<open>mongo.NewClient(options.Client().ApplyURI(uri))\<close>,
  \<^verbatim>\<open>(*Client).Connect(ctx)\<close>, \<^verbatim>\<open>(*Client).Database(name)\<close>,
  \<^verbatim>\<open>(*Database).ListCollectionNames(ctx, bson.M{})\<close> and
  \<^verbatim>\<open>(*Database).Collection(name)\<close>. Each returns what the Go call returns: a pair of a
  value and an error where the Go call returns one.
\<close>

record ('cl, 'db, 's, 'e) mongo_driver =
  mongo_NewClient :: "string \<Rightarrow> 'e \<Rightarrow> ('cl option \<times> error option) \<times> 'e"
  Client_Connect :: "'cl option \<Rightarrow> Context \<Rightarrow> 'e \<Rightarrow> error option \<times> 'e"
  Client_Database :: "'cl option \<Rightarrow> string \<Rightarrow> 'db option"
  Database_ListCollectionNames ::
    "'db option \<Rightarrow> Context \<Rightarrow> 'e \<Rightarrow> (string list \<times> error option) \<times> 'e"
  Database_Collection :: "'db option \<Rightarrow> string \<Rightarrow> 's mongoCollection"

record 'e sys =
  env :: 'e
  logs :: "Entry list"

text \<open>
  \<^verbatim>\<open>fmt.Sprintf("mongodb+srv://%s:%s@%s/%s?retryWrites=true&w=majority", c.DatabaseUser,
  c.DatabasePassword, c.DatabaseConnectionUrl, c.DatabaseName)\<close>
\<close>

definition connection_uri :: "DatabaseConfiguration \<Rightarrow> string" where
  "connection_uri c =
     ''mongodb+srv://'' @ DatabaseUser c @ '':'' @ DatabasePassword c @ ''@''
       @ DatabaseConnectionUrl c @ ''/'' @ DatabaseName c @ ''?retryWrites=true&w=majority''"

text \<open>
  The loop of \<^verbatim>\<open>NewStorage\<close> over the collection names:
  \<^verbatim>\<open>
  for _, collection := range collectionStrings {
      temp := resp.Database.Collection(collection)
      resp.Collections = append(resp.Collections, &DatabaseCollection{name: collection, collection: temp})
  }
  \<close>
\<close>

fun wrap_collections ::
  "('cl, 'db, 's, 'e) mongo_driver \<Rightarrow> ('cl, 'db, 's) DatabaseClient \<Rightarrow> string list \<Rightarrow>
     ('cl, 'db, 's) DatabaseClient" where
  "wrap_collections drv resp [] = resp"
| "wrap_collections drv resp (coll # rest) =
     (let temp = Database_Collection drv (Database resp) coll
      in wrap_collections drv
           (resp\<lparr>Collections := Collections resp @ [\<lparr>name = coll, collection = temp\<rparr>]\<rparr>) rest)"

text \<open>
  \<^verbatim>\<open>NewStorage\<close> (the bootstrap with discovery). It returns the pointer \<open>resp\<close>, never
  nil, and an error. The deferred \<^verbatim>\<open>cancel\<close> of the ten-second context has no part in
  the result.
\<close>

definition NewStorage ::
  "('cl, 'db, 's, 'e) mongo_driver \<Rightarrow> DatabaseConfiguration \<Rightarrow> Logger \<Rightarrow> 'e sys \<Rightarrow>
     (('cl, 'db, 's) DatabaseClient option \<times> error option) \<times> 'e sys" where
  "NewStorage drv c l s =
     (let resp0 = \<lparr>Instance = None, Database = None, Collections = [], logger = None\<rparr>;
          resp1 = resp0\<lparr>logger := Some (With l [zap_String ''package'' ''mongocrud''])\<rparr>;
          ctx = WithTimeout Background (10 * Second);
          uri = connection_uri c;
          ((inst, err1), e1) = mongo_NewClient drv uri (env s);
          resp2 = resp1\<lparr>Instance := inst\<rparr>
      in (case err1 of
            Some e \<Rightarrow>
              ((Some resp2, Some e),
               \<lparr>env = e1,
                logs = logs s @ [write_entry (logger resp2) ErrorLevel ''new client failed''
                                   [zap_String ''func'' ''GetInstance'', zap_Error e]]\<rparr>)
          | None \<Rightarrow>
              (let lg1 = logs s @ [write_entry (logger resp2) InfoLevel ''new client created'' []];
                   (err2, e2) = Client_Connect drv (Instance resp2) ctx e1
               in (case err2 of
                     Some e \<Rightarrow>
                       ((Some resp2, Some e),
                        \<lparr>env = e2,
                         logs = lg1 @ [write_entry (logger resp2) ErrorLevel
                                         ''client connection failed''
                                         [zap_String ''func'' ''GetInstance'', zap_Error e]]\<rparr>)
                   | None \<Rightarrow>
                       (let lg2 = lg1 @ [write_entry (logger resp2) InfoLevel
                                           ''client connection established'' []];
                            resp3 = resp2\<lparr>Database :=
                                      Client_Database drv (Instance resp2) (DatabaseName c)\<rparr>;
                            ((collectionStrings, err3), e3) =
                              Database_ListCollectionNames drv (Database resp3) ctx e2;
                            lg3 = (if err3 \<noteq> None
                                   then lg2 @ [write_entry (logger resp3) WarnLevel
                                                 ''unable to get collection names'' []]
                                   else lg2);
                            resp4 = wrap_collections drv resp3 collectionStrings
                        in ((Some resp4, None), \<lparr>env = e3, logs = lg3\<rparr>))))))"

text \<open>
  A driver for running the bootstrap: it answers each call with what it is told to, opens
  the in-memory handle for every collection name, and has no state.
\<close>

definition scripted_driver ::
  "error option \<Rightarrow> error option \<Rightarrow> string list \<times> error option \<Rightarrow>
     (string, string, mem, unit) mongo_driver" where
  "scripted_driver new_err conn_err listing =
     \<lparr>mongo_NewClient = (\<lambda>uri e. ((if new_err = None then Some uri else None, new_err), e)),
      Client_Connect = (\<lambda>cl ctx e. (conn_err, e)),
      Client_Database = (\<lambda>cl n. Some n),
      Database_ListCollectionNames = (\<lambda>db ctx e. (listing, e)),
      Database_Collection = (\<lambda>db n. collection mem_collection)\<rparr>"

definition config0 :: DatabaseConfiguration where
  "config0 = \<lparr>DatabaseUser = ''u'', DatabasePassword = ''p'',
              DatabaseConnectionUrl = ''h.example'', DatabaseName = ''db''\<rparr>"

definition logger0 :: Logger where
  "logger0 = \<lparr>logger_fields = []\<rparr>"

definition sys0 :: "unit sys" where
  "sys0 = \<lparr>env = (), logs = []\<rparr>"

section \<open>The identifier and its hexadecimal text\<close>

lemma length_Rep_ObjectID: "length (Rep_ObjectID oid) = 12"
  using Rep_ObjectID [of oid] by simp

lemma Rep_NilObjectID: "Rep_ObjectID NilObjectID = replicate 12 0"
  by (simp add: NilObjectID_def Abs_ObjectID_inverse)

lemma Rep_copy_oid: "Rep_ObjectID (copy_oid b) = take 12 b @ replicate (12 - length b) 0"
  by (simp add: copy_oid_def Abs_ObjectID_inverse)

lemma copy_oid_Rep: "copy_oid (Rep_ObjectID oid) = oid"
  by (simp add: copy_oid_def length_Rep_ObjectID Rep_ObjectID_inverse)

lemma ObjectID_eq_iff: "oid = oid' \<longleftrightarrow> Rep_ObjectID oid = Rep_ObjectID oid'"
  by (simp add: Rep_ObjectID_inject)

lemma hextable_nth: "n < 16 \<Longrightarrow> fromHexChar (hextable ! n) = Some (of_nat n)"
proof -
  assume "n < 16"
  then have "n \<in> set [0..<16]" by simp
  then show ?thesis
    by (auto simp add: upt_rec hextable_def fromHexChar_def)
qed

lemma low_nibble: "(v :: byte) AND 0x0f = take_bit 4 v"
proof -
  have "(0x0f :: byte) = mask 4" by (simp add: mask_eq_exp_minus_1)
  then show ?thesis by (simp add: take_bit_eq_mask)
qed

lemma nibbles: "push_bit 4 (drop_bit 4 v) OR (v AND 0x0f) = (v :: byte)"
  unfolding low_nibble by (rule bit_eqI) (auto simp: bit_simps)

lemma unat_high_nibble: "unat (drop_bit 4 (v :: byte)) < 16"
proof -
  have "unat v < 256" using unsigned_less [of v] by simp
  then have "unat v div 16 < 16" by simp
  then show ?thesis by (simp add: drop_bit_eq_div unat_div)
qed

lemma unat_low_nibble: "unat ((v :: byte) AND 0x0f) < 16"
  unfolding low_nibble by (simp add: take_bit_eq_mod unat_mod)

lemma Decode_encode_byte:
  "Decode (encode_byte v @ rest) =
     (case Decode rest of None \<Rightarrow> None | Some bs \<Rightarrow> Some (v # bs))"
  using nibbles [of v] unat_high_nibble [of v] unat_low_nibble [of v]
  by (simp add: encode_byte_def hextable_nth split: option.splits)

lemma Decode_EncodeToString: "Decode (EncodeToString bs) = Some bs"
  by (induction bs) (simp_all add: EncodeToString_def Decode_encode_byte)

lemma length_EncodeToString: "length (EncodeToString bs) = 2 * length bs"
  by (induction bs) (simp_all add: EncodeToString_def encode_byte_def)

text \<open>Decoding the hexadecimal text of an identifier gives the identifier back.\<close>

lemma ObjectIDFromHex_Hex: "ObjectIDFromHex (Hex oid) = (oid, None)"
  by (simp add: ObjectIDFromHex_def Hex_def length_EncodeToString length_Rep_ObjectID
      Decode_EncodeToString copy_oid_Rep)

lemma fromHexChar_None_iff: "fromHexChar ch = None \<longleftrightarrow> \<not> is_hex_digit ch"
  by (cases ch) (simp add: fromHexChar_def is_hex_digit_def Let_def word_le_nat_alt)

lemma is_hex_digit_iff: "is_hex_digit ch \<longleftrightarrow> fromHexChar ch \<noteq> None"
  by (simp add: fromHexChar_None_iff)

lemma Decode_Some_iff: "even (length s) \<Longrightarrow> Decode s \<noteq> None \<longleftrightarrow> list_all is_hex_digit s"
proof (induction s rule: Decode.induct)
  case 1
  then show ?case by simp
next
  case (2 p)
  then show ?case by simp
next
  case (3 p q rest)
  show ?case
  proof (cases "fromHexChar p")
    case None
    then show ?thesis by (simp add: is_hex_digit_iff)
  next
    case a: (Some a)
    show ?thesis
    proof (cases "fromHexChar q")
      case None
      with a show ?thesis by (simp add: is_hex_digit_iff)
    next
      case b: (Some b)
      from "3.prems" have "even (length rest)" by simp
      with "3.IH" [OF a b] have "Decode rest \<noteq> None \<longleftrightarrow> list_all is_hex_digit rest" .
      moreover from a b have "is_hex_digit p" "is_hex_digit q"
        by (simp_all add: is_hex_digit_iff)
      ultimately show ?thesis
        using a b by (auto split: option.splits)
    qed
  qed
qed

text \<open>The decoder fails exactly on the texts that are no encoding of an identifier.\<close>

lemma ObjectIDFromHex_error_iff: "snd (ObjectIDFromHex s) \<noteq> None \<longleftrightarrow> \<not> is_ObjectID_hex s"
proof (cases "length s = 24")
  case True
  then have "even (length s)" by simp
  from Decode_Some_iff [OF this] True show ?thesis
    by (auto simp: ObjectIDFromHex_def is_ObjectID_hex_def split: option.splits)
next
  case False
  then show ?thesis by (simp add: ObjectIDFromHex_def is_ObjectID_hex_def)
qed

lemma ObjectIDFromHex_error_Nil:
  "snd (ObjectIDFromHex s) \<noteq> None \<Longrightarrow> fst (ObjectIDFromHex s) = NilObjectID"
  by (auto simp: ObjectIDFromHex_def split: option.splits if_splits)

lemma ObjectIDFromHex_malformed:
  "\<not> is_ObjectID_hex s \<Longrightarrow> ObjectIDFromHex s = (NilObjectID, Some ErrInvalidHex)"
  using ObjectIDFromHex_error_iff [of s]
  by (auto simp: ObjectIDFromHex_def split: option.splits if_splits)

text \<open>The filter the two lookups build in their switch is the specification's.\<close>

lemma identity_filter_code:
  "identity_filter by' val =
     (if by' = ''_id'' \<or> by' = ''id''
      then (let (objID, _) = ObjectIDFromHex val
            in [\<lparr>Key = ''_id'', Value = ObjectIDV objID\<rparr>])
      else [\<lparr>Key = by', Value = StringV val\<rparr>])"
  using ObjectIDFromHex_error_Nil [of val]
  by (auto simp: identity_filter_def split: prod.splits option.splits)

lemma identity_filter_Hex:
  "identity_filter ''id'' (Hex oid) = [\<lparr>Key = ''_id'', Value = ObjectIDV oid\<rparr>]"
  by (simp add: identity_filter_def ObjectIDFromHex_Hex)

lemma ItemExists_filter:
  "ItemExists c ctx by' val w =
     (let (result, w') = call_FindOne c ctx (identity_filter by' val) w
      in (Err result = None, w'))"
  unfolding identity_filter_code ItemExists_def by (simp add: Let_def)

lemma GetItem_filter:
  "GetItem c ctx by' val w =
     (let (item, w') = call_FindOne c ctx (identity_filter by' val) w
      in if Err item \<noteq> None then ((None, Some ErrorGetFailed), w')
         else ((Some item, None), w'))"
  unfolding identity_filter_code GetItem_def by (simp add: Let_def)

lemma oid1_not_Nil: "oid1 \<noteq> NilObjectID"
proof
  assume "oid1 = NilObjectID"
  then have "Rep_ObjectID oid1 ! 0 = Rep_ObjectID NilObjectID ! 0" by simp
  then show False by (simp add: oid1_def Rep_copy_oid Rep_NilObjectID)
qed

lemma not_hex_example: "\<not> is_ObjectID_hex ''not-a-hex-id''"
  by (simp add: is_ObjectID_hex_def)

section \<open>Running the two handles\<close>

lemmas handle_defs =
  mem_collection_def mem_InsertOne_def mem_FindOne_def mem_ReplaceOne_def mem_DeleteOne_def
  filter_id_def down_collection_def call_InsertOne_def call_FindOne_def call_ReplaceOne_def
  call_DeleteOne_def w0_def d0_def w_one_def w_nil_def item1_def blank_item_def nil_filter_def
  ValueOf_def field_ID_def Err_def

section \<open>Lookups\<close>

text \<open>
  C1. For every value that is no valid hex encoding of a 12-byte identifier, \<open>GetItem\<close>
  and \<open>ItemExists\<close> with the key \<open>id\<close> or \<open>_id\<close> report no decode error: they look up the
  filter on the nil identifier and answer from that lookup.
\<close>

theorem malformed_hex_looks_up_nil:
  assumes "\<not> is_ObjectID_hex val" and "by' = ''id'' \<or> by' = ''_id''"
  shows "GetItem c ctx by' val w =
           (let (item, w') = call_FindOne c ctx nil_filter w
            in if Err item \<noteq> None then ((None, Some ErrorGetFailed), w')
               else ((Some item, None), w'))
       \<and> ItemExists c ctx by' val w =
           (let (result, w') = call_FindOne c ctx nil_filter w
            in (Err result = None, w'))
       \<and> snd (fst (GetItem c ctx by' val w)) \<noteq> Some ErrInvalidHex"
  using assms ObjectIDFromHex_malformed [of val]
  by (auto simp: GetItem_def ItemExists_def nil_filter_def Let_def split: prod.splits)

theorem malformed_hex_looks_up_nil_witness:
  "\<not> is_ObjectID_hex ''not-a-hex-id''
   \<and> fst (GetItem mem_collection Background ''id'' ''not-a-hex-id'' w0) = (None, Some ErrorGetFailed)
   \<and> calls (snd (GetItem mem_collection Background ''id'' ''not-a-hex-id'' w0))
       = [CallFindOne Background [\<lparr>Key = ''_id'', Value = ObjectIDV NilObjectID\<rparr>]]
   \<and> fst (ItemExists mem_collection Background ''id'' ''not-a-hex-id'' w0) = False
   \<and> fst (ItemExists mem_collection Background ''_id'' ''not-a-hex-id'' w_nil) = True"
  using malformed_hex_looks_up_nil [of "''not-a-hex-id''" "''id''" mem_collection Background w0]
    malformed_hex_looks_up_nil [of "''not-a-hex-id''" "''_id''" mem_collection Background w_nil]
    not_hex_example
  by (simp add: handle_defs)

text \<open>
  C6. \<open>ItemExists\<close> is true exactly when the lookup with the constructed filter carries no
  error; every error of the lookup, "no documents" or any other, makes it false.
\<close>

theorem ItemExists_iff_no_error:
  "fst (ItemExists c ctx by' val w)
     = (Err (store_answer c ctx (identity_filter by' val) w) = None)
   \<and> (\<forall>e. Err (store_answer c ctx (identity_filter by' val) w) = Some e
          \<longrightarrow> \<not> fst (ItemExists c ctx by' val w))
   \<and> calls (snd (ItemExists c ctx by' val w))
       = calls w @ [CallFindOne ctx (identity_filter by' val)]"
  by (auto simp: ItemExists_filter call_FindOne_def Let_def split: prod.splits)

theorem ItemExists_iff_no_error_witness:
  "Err (store_answer mem_collection Background (identity_filter ''id'' (Hex oid1)) w0)
     = Some ErrNoDocuments
   \<and> \<not> fst (ItemExists mem_collection Background ''id'' (Hex oid1) w0)
   \<and> Err (store_answer down_collection TODO (identity_filter ''name'' ''one'') d0)
     = Some (DriverError ''connection refused'')
   \<and> \<not> fst (ItemExists down_collection TODO ''name'' ''one'' d0)
   \<and> Err (store_answer mem_collection Background (identity_filter ''id'' (Hex oid1)) w_one) = None
   \<and> fst (ItemExists mem_collection Background ''id'' (Hex oid1) w_one)"
  using ItemExists_iff_no_error [of mem_collection Background "''id''" "Hex oid1" w0]
    ItemExists_iff_no_error [of down_collection TODO "''name''" "''one''" d0]
    ItemExists_iff_no_error [of mem_collection Background "''id''" "Hex oid1" w_one]
  by (simp add: identity_filter_Hex handle_defs)

text \<open>
  C7. \<open>GetItem\<close> returns \<open>ErrorGetFailed\<close> and no result exactly when the lookup's result
  carries an error, whatever that error is; otherwise it returns the result handle and no
  error.
\<close>

theorem GetItem_error_iff:
  "(fst (GetItem c ctx by' val w) = (None, Some ErrorGetFailed))
     = (Err (store_answer c ctx (identity_filter by' val) w) \<noteq> None)
   \<and> (fst (GetItem c ctx by' val w)
        = (Some (store_answer c ctx (identity_filter by' val) w), None))
     = (Err (store_answer c ctx (identity_filter by' val) w) = None)
   \<and> calls (snd (GetItem c ctx by' val w))
       = calls w @ [CallFindOne ctx (identity_filter by' val)]"
  by (auto simp: GetItem_filter call_FindOne_def Let_def split: prod.splits)

theorem GetItem_error_iff_witness:
  "fst (GetItem down_collection Background ''name'' ''one'' d0) = (None, Some ErrorGetFailed)
   \<and> Err (store_answer down_collection Background (identity_filter ''name'' ''one'') d0)
       = Some (DriverError ''connection refused'')
   \<and> fst (GetItem mem_collection Background ''id'' (Hex oid1) w_one)
       = (Some \<lparr>err = None, rdr = [\<lparr>Key = ''_id'', Value = ObjectIDV oid1\<rparr>]\<rparr>, None)"
  using GetItem_error_iff [of down_collection Background "''name''" "''one''" d0]
    GetItem_error_iff [of mem_collection Background "''id''" "Hex oid1" w_one]
  by (simp add: identity_filter_Hex handle_defs)

text \<open>
  C10. \<open>ItemExists\<close> and \<open>GetItem\<close> build the same filter, the specification's, make the
  same single lookup call, and leave the same world; \<open>ItemExists\<close> is true exactly when
  \<open>GetItem\<close> returns without error.
\<close>

theorem ItemExists_agrees_with_GetItem:
  "ItemExists c ctx by' val w
     = (snd (fst (GetItem c ctx by' val w)) = None, snd (GetItem c ctx by' val w))
   \<and> snd (ItemExists c ctx by' val w) = snd (call_FindOne c ctx (identity_filter by' val) w)
   \<and> snd (GetItem c ctx by' val w) = snd (call_FindOne c ctx (identity_filter by' val) w)"
  by (auto simp: ItemExists_filter GetItem_filter Let_def split: prod.splits)

section \<open>Deleting\<close>

text \<open>
  C8. \<open>DeleteItem\<close> makes one \<open>DeleteOne\<close> call, with the filter on exactly the given
  \<open>_id\<close> and under the context made of the background context and three seconds, whatever
  the caller has; it returns \<open>ErrorDeleteFailed\<close> exactly when that call returns an error
  and nil otherwise, also when the call acknowledges no deleted document.
\<close>

theorem DeleteItem_fixed_deadline:
  "DeleteItem c oid w =
     (case call_DeleteOne c (WithTimeout Background 3000000000)
             [\<lparr>Key = ''_id'', Value = ObjectIDV oid\<rparr>] w of
        ((ack, Some e), w') \<Rightarrow> (Some ErrorDeleteFailed, w')
      | ((ack, None), w') \<Rightarrow> (None, w'))
   \<and> (fst (DeleteItem c oid w) = Some ErrorDeleteFailed)
     = (snd (fst (DeleteOne (collection c) (WithTimeout Background 3000000000)
                    [\<lparr>Key = ''_id'', Value = ObjectIDV oid\<rparr>] (store w))) \<noteq> None)
   \<and> (fst (DeleteItem c oid w) = None)
     = (snd (fst (DeleteOne (collection c) (WithTimeout Background 3000000000)
                    [\<lparr>Key = ''_id'', Value = ObjectIDV oid\<rparr>] (store w))) = None)
   \<and> calls (snd (DeleteItem c oid w))
       = calls w @ [CallDeleteOne (WithTimeout Background 3000000000)
                      [\<lparr>Key = ''_id'', Value = ObjectIDV oid\<rparr>]]"
  by (auto simp: DeleteItem_def call_DeleteOne_def Second_def Let_def
      split: prod.splits option.splits)

theorem DeleteItem_fixed_deadline_witness:
  "DeleteOne (collection mem_collection) (WithTimeout Background 3000000000)
     [\<lparr>Key = ''_id'', Value = ObjectIDV oid1\<rparr>] (store w0)
     = ((Some \<lparr>DeletedCount = 0\<rparr>, None), [])
   \<and> fst (DeleteItem mem_collection oid1 w0) = None
   \<and> DeleteItem mem_collection oid1 w_one
     = (None, \<lparr>store = [], calls = [CallDeleteOne (WithTimeout Background 3000000000)
                                     [\<lparr>Key = ''_id'', Value = ObjectIDV oid1\<rparr>]]\<rparr>)
   \<and> fst (DeleteItem down_collection oid1 d0) = Some ErrorDeleteFailed"
  using DeleteItem_fixed_deadline [of mem_collection oid1 w0]
    DeleteItem_fixed_deadline [of mem_collection oid1 w_one]
    DeleteItem_fixed_deadline [of down_collection oid1 d0]
  by (simp add: handle_defs)

section \<open>Creating and updating\<close>

text \<open>
  C3. An argument that is no pointer is refused with \<open>ErrorValueNotPointer\<close>, whatever
  else it is (the nil interface, a struct passed by value, any non-struct); a pointer to
  anything but a struct, the nil pointer included, is refused with \<open>ErrorValueNotStruct\<close>.
  In both cases the world is the one before: no call reached the handle.
\<close>

theorem kind_checks_before_store:
  "((\<forall>p. i \<noteq> PtrV p) \<longrightarrow>
      NewItem c ctx i w = (Inr (None, Some ErrorValueNotPointer), w)
      \<and> UpdateItem c ctx i w = (Inr (None, Some ErrorValueNotPointer), w))
   \<and> ((\<exists>p. i = PtrV p \<and> (\<forall>fs. p \<noteq> Some (StructV fs))) \<longrightarrow>
      NewItem c ctx i w = (Inr (None, Some ErrorValueNotStruct), w)
      \<and> UpdateItem c ctx i w = (Inr (None, Some ErrorValueNotStruct), w))"
proof (intro conjI impI)
  assume np: "\<forall>p. i \<noteq> PtrV p"
  then have k: "Kind (ValueOf i) \<noteq> reflect_Ptr"
    by (cases i) (simp_all add: ValueOf_def)
  from k show "NewItem c ctx i w = (Inr (None, Some ErrorValueNotPointer), w)"
    by (simp add: NewItem_def)
  from k show "UpdateItem c ctx i w = (Inr (None, Some ErrorValueNotPointer), w)"
    by (simp add: UpdateItem_def)
next
  assume "\<exists>p. i = PtrV p \<and> (\<forall>fs. p \<noteq> Some (StructV fs))"
  then obtain p where i: "i = PtrV p" and ns: "\<forall>fs. p \<noteq> Some (StructV fs)"
    by blast
  have "\<exists>tgt. Elem (ValueOf i) = Inr tgt \<and> Kind tgt \<noteq> reflect_Struct"
  proof (cases p)
    case None
    with i show ?thesis by (simp add: ValueOf_def)
  next
    case (Some v)
    with ns have "Kind (Val v) \<noteq> reflect_Struct" by (cases v) simp_all
    with i Some show ?thesis by (simp add: ValueOf_def)
  qed
  then obtain tgt where t: "Elem (ValueOf i) = Inr tgt" "Kind tgt \<noteq> reflect_Struct"
    by blast
  from i have k: "Kind (ValueOf i) = reflect_Ptr" by (simp add: ValueOf_def)
  from k t show "NewItem c ctx i w = (Inr (None, Some ErrorValueNotStruct), w)"
    by (simp add: NewItem_def)
  from k t show "UpdateItem c ctx i w = (Inr (None, Some ErrorValueNotStruct), w)"
    by (simp add: UpdateItem_def)
qed

theorem kind_checks_before_store_witness:
  "NewItem mem_collection Background (StructV [(''ID'', ObjectIDV oid1)]) w0
     = (Inr (None, Some ErrorValueNotPointer), w0)
   \<and> UpdateItem mem_collection Background (IntV 3) w0
     = (Inr (None, Some ErrorValueNotPointer), w0)
   \<and> NewItem mem_collection Background NilV w0 = (Inr (None, Some ErrorValueNotPointer), w0)
   \<and> NewItem mem_collection Background (PtrV (Some (StringV ''one''))) w0
     = (Inr (None, Some ErrorValueNotStruct), w0)
   \<and> UpdateItem mem_collection Background (PtrV None) w0
     = (Inr (None, Some ErrorValueNotStruct), w0)
   \<and> calls w0 = []"
  using kind_checks_before_store [of "StructV [(''ID'', ObjectIDV oid1)]" mem_collection Background w0]
    kind_checks_before_store [of "IntV 3" mem_collection Background w0]
    kind_checks_before_store [of NilV mem_collection Background w0]
    kind_checks_before_store [of "PtrV (Some (StringV ''one''))" mem_collection Background w0]
    kind_checks_before_store [of "PtrV None" mem_collection Background w0]
  by (simp add: w0_def)

lemma field_ID_struct:
  "map_of fs ''ID'' = Some (ObjectIDV oid) \<Longrightarrow> field_ID (Val (StructV fs)) = Inr oid"
  by (simp add: field_ID_def)

text \<open>
  C2. For a pointer to a struct whose \<open>ID\<close> field holds the nil identifier, \<open>NewItem\<close> and
  \<open>UpdateItem\<close> return \<open>ErrorIdBlank\<close>, and the world is the one before: the store is
  untouched and no call, of any of the four operations, was made on the handle.
\<close>

theorem blank_id_rejected_before_store:
  assumes "i = PtrV (Some (StructV fs))" and "map_of fs ''ID'' = Some (ObjectIDV NilObjectID)"
  shows "NewItem c ctx i w = (Inr (None, Some ErrorIdBlank), w)
       \<and> UpdateItem c ctx i w = (Inr (None, Some ErrorIdBlank), w)"
  using assms field_ID_struct [of fs NilObjectID]
  by (simp add: NewItem_def UpdateItem_def ValueOf_def)

theorem blank_id_rejected_before_store_witness:
  "NewItem mem_collection Background blank_item w_one = (Inr (None, Some ErrorIdBlank), w_one)
   \<and> UpdateItem down_collection Background blank_item d0 = (Inr (None, Some ErrorIdBlank), d0)
   \<and> calls w_one = [] \<and> calls d0 = []"
  using blank_id_rejected_before_store [of blank_item
      "[(''ID'', ObjectIDV NilObjectID), (''Name'', StringV ''none'')]" mem_collection Background w_one]
    blank_id_rejected_before_store [of blank_item
      "[(''ID'', ObjectIDV NilObjectID), (''Name'', StringV ''none'')]" down_collection Background d0]
  by (simp add: blank_item_def w_one_def d0_def)

text \<open>
  C4. For a pointer to a struct with a non-nil \<open>ID\<close>: \<open>NewItem\<close> calls \<open>InsertOne\<close> with
  the record; if that returns an error, whatever it is, \<open>NewItem\<close> returns
  \<open>ErrorInsertFailed\<close> and nothing else; if not, \<open>NewItem\<close> returns what \<open>GetItem\<close>,
  keyed by \<open>id\<close> and the hex text of the identifier, returns in the world after the insert.
\<close>

theorem NewItem_insert_then_refetch:
  assumes "i = PtrV (Some (StructV fs))" and "map_of fs ''ID'' = Some (ObjectIDV oid)"
    and "oid \<noteq> NilObjectID"
  shows "NewItem c ctx i w =
           (case call_InsertOne c ctx i w of
              ((ack, Some e), w1) \<Rightarrow> (Inr (None, Some ErrorInsertFailed), w1)
            | ((ack, None), w1) \<Rightarrow>
                (let (r, w2) = GetItem c ctx ''id'' (Hex oid) w1 in (Inr r, w2)))"
  using assms field_ID_struct [of fs oid]
  by (simp add: NewItem_def ValueOf_def split: prod.splits option.splits)

theorem NewItem_insert_then_refetch_witness:
  "oid1 \<noteq> NilObjectID
   \<and> NewItem mem_collection Background item1 w0
     = (Inr (Some \<lparr>err = None, rdr = [\<lparr>Key = ''_id'', Value = ObjectIDV oid1\<rparr>]\<rparr>, None),
        \<lparr>store = [(oid1, item1)],
         calls = [CallInsertOne Background item1,
                  CallFindOne Background [\<lparr>Key = ''_id'', Value = ObjectIDV oid1\<rparr>]]\<rparr>)
   \<and> NewItem mem_collection Background item1 w_one
     = (Inr (None, Some ErrorInsertFailed),
        \<lparr>store = [(oid1, item1)], calls = [CallInsertOne Background item1]\<rparr>)
   \<and> NewItem down_collection Background item1 d0
     = (Inr (None, Some ErrorInsertFailed),
        \<lparr>store = (), calls = [CallInsertOne Background item1]\<rparr>)"
  using NewItem_insert_then_refetch [of item1
      "[(''ID'', ObjectIDV oid1), (''Name'', StringV ''one'')]" oid1 mem_collection Background w0]
    NewItem_insert_then_refetch [of item1
      "[(''ID'', ObjectIDV oid1), (''Name'', StringV ''one'')]" oid1 mem_collection Background w_one]
    NewItem_insert_then_refetch [of item1
      "[(''ID'', ObjectIDV oid1), (''Name'', StringV ''one'')]" oid1 down_collection Background d0]
    oid1_not_Nil
  by (simp add: GetItem_filter identity_filter_Hex handle_defs)

text \<open>The re-fetch of both operations is the lookup of exactly the record's identifier.\<close>

lemma GetItem_Hex:
  "GetItem c ctx ''id'' (Hex oid) w =
     (let (item, w') = call_FindOne c ctx [\<lparr>Key = ''_id'', Value = ObjectIDV oid\<rparr>] w
      in if Err item \<noteq> None then ((None, Some ErrorGetFailed), w')
         else ((Some item, None), w'))"
  by (simp add: GetItem_filter identity_filter_Hex)

lemma GetItem_errors: "snd (fst (GetItem c ctx by' val w)) \<in> {None, Some ErrorGetFailed}"
  by (simp add: GetItem_def Let_def split: prod.splits)

text \<open>
  C5. For a pointer to a struct with a non-nil \<open>ID\<close>: \<open>UpdateItem\<close> calls \<open>ReplaceOne\<close>
  with the filter that holds the \<open>ID\<close> field itself under \<open>_id\<close>, and with the whole
  record; if that returns an error it returns \<open>ErrorUpdateFailed\<close> and nothing else; if
  not, it returns what \<open>GetItem\<close>, keyed by \<open>id\<close> and the hex text of the identifier,
  returns afterwards. The acknowledgement of the replace, and so the number of documents
  it matched, has no part in the result: a replace without error never gives
  \<open>ErrorUpdateFailed\<close>.
\<close>

theorem UpdateItem_replace_then_refetch:
  assumes "i = PtrV (Some (StructV fs))" and "map_of fs ''ID'' = Some (ObjectIDV oid)"
    and "oid \<noteq> NilObjectID"
  shows "UpdateItem c ctx i w =
           (case call_ReplaceOne c ctx [\<lparr>Key = ''_id'', Value = ObjectIDV oid\<rparr>] i w of
              ((ack, Some e), w1) \<Rightarrow> (Inr (None, Some ErrorUpdateFailed), w1)
            | ((ack, None), w1) \<Rightarrow>
                (let (r, w2) = GetItem c ctx ''id'' (Hex oid) w1 in (Inr r, w2)))
       \<and> (snd (fst (call_ReplaceOne c ctx [\<lparr>Key = ''_id'', Value = ObjectIDV oid\<rparr>] i w)) = None
            \<longrightarrow> fst (UpdateItem c ctx i w) \<noteq> Inr (None, Some ErrorUpdateFailed))"
proof -
  have eq: "UpdateItem c ctx i w =
           (case call_ReplaceOne c ctx [\<lparr>Key = ''_id'', Value = ObjectIDV oid\<rparr>] i w of
              ((ack, Some e), w1) \<Rightarrow> (Inr (None, Some ErrorUpdateFailed), w1)
            | ((ack, None), w1) \<Rightarrow>
                (let (r, w2) = GetItem c ctx ''id'' (Hex oid) w1 in (Inr r, w2)))"
    using assms field_ID_struct [of fs oid]
    by (simp add: UpdateItem_def ValueOf_def split: prod.splits option.splits)
  have "fst (UpdateItem c ctx i w) \<noteq> Inr (None, Some ErrorUpdateFailed)"
    if ok: "snd (fst (call_ReplaceOne c ctx [\<lparr>Key = ''_id'', Value = ObjectIDV oid\<rparr>] i w)) = None"
  proof -
    obtain ack w1 where r: "call_ReplaceOne c ctx [\<lparr>Key = ''_id'', Value = ObjectIDV oid\<rparr>] i w
        = ((ack, None), w1)"
      using ok
      by (cases "call_ReplaceOne c ctx [\<lparr>Key = ''_id'', Value = ObjectIDV oid\<rparr>] i w") auto
    have "fst (UpdateItem c ctx i w) = Inr (fst (GetItem c ctx ''id'' (Hex oid) w1))"
      unfolding eq r by (simp split: prod.splits)
    then show ?thesis
      using GetItem_errors [of c ctx "''id''" "Hex oid" w1]
      by (cases "fst (GetItem c ctx ''id'' (Hex oid) w1)") auto
  qed
  with eq show ?thesis by blast
qed

theorem UpdateItem_replace_then_refetch_witness:
  "oid1 \<noteq> NilObjectID
   \<and> fst (call_ReplaceOne mem_collection Background [\<lparr>Key = ''_id'', Value = ObjectIDV oid1\<rparr>]
            item1 w0)
     = (Some \<lparr>MatchedCount = 0, ModifiedCount = 0, UpsertedCount = 0\<rparr>, None)
   \<and> UpdateItem mem_collection Background item1 w0
     = (Inr (None, Some ErrorGetFailed),
        \<lparr>store = [],
         calls = [CallReplaceOne Background [\<lparr>Key = ''_id'', Value = ObjectIDV oid1\<rparr>] item1,
                  CallFindOne Background [\<lparr>Key = ''_id'', Value = ObjectIDV oid1\<rparr>]]\<rparr>)
   \<and> fst (UpdateItem mem_collection Background item1 w_one)
     = Inr (Some \<lparr>err = None, rdr = [\<lparr>Key = ''_id'', Value = ObjectIDV oid1\<rparr>]\<rparr>, None)
   \<and> fst (UpdateItem down_collection Background item1 d0) = Inr (None, Some ErrorUpdateFailed)"
  using UpdateItem_replace_then_refetch [of item1
      "[(''ID'', ObjectIDV oid1), (''Name'', StringV ''one'')]" oid1 mem_collection Background w0]
    UpdateItem_replace_then_refetch [of item1
      "[(''ID'', ObjectIDV oid1), (''Name'', StringV ''one'')]" oid1 mem_collection Background w_one]
    UpdateItem_replace_then_refetch [of item1
      "[(''ID'', ObjectIDV oid1), (''Name'', StringV ''one'')]" oid1 down_collection Background d0]
    oid1_not_Nil
  by (simp add: GetItem_filter identity_filter_Hex handle_defs)

section \<open>The bootstrap\<close>

lemma wrap_collections_eq:
  "wrap_collections drv resp names =
     resp\<lparr>Collections := Collections resp
       @ map (\<lambda>coll. \<lparr>name = coll, collection = Database_Collection drv (Database resp) coll\<rparr>)
           names\<rparr>"
  by (induction names arbitrary: resp) (simp_all add: Let_def)

text \<open>
  What \<^verbatim>\<open>NewStorage\<close> returns once the client is made and connected, whatever the
  discovery answers: the client with one collection for every name the driver returned,
  in that order, and no error.
\<close>

lemma NewStorage_connected:
  assumes "mongo_NewClient drv (connection_uri c) (env s) = ((inst, None), e1)"
    and "Client_Connect drv inst (WithTimeout Background 10000000000) e1 = (None, e2)"
    and "Database_ListCollectionNames drv (Client_Database drv inst (DatabaseName c))
           (WithTimeout Background 10000000000) e2 = ((names, lerr), e3)"
  shows "fst (NewStorage drv c l s) =
           (Some \<lparr>Instance = inst, Database = Client_Database drv inst (DatabaseName c),
                  Collections =
                    map (\<lambda>coll. \<lparr>name = coll,
                                 collection = Database_Collection drv
                                   (Client_Database drv inst (DatabaseName c)) coll\<rparr>) names,
                  logger = Some (With l [zap_String ''package'' ''mongocrud''])\<rparr>,
            None)"
  using assms by (simp add: NewStorage_def Second_def wrap_collections_eq Let_def)

text \<open>
  C9. If making the client fails, or connecting it fails, \<^verbatim>\<open>NewStorage\<close> stops there
  and returns that error together with the client built so far, which is not nil: the
  logger is set, the instance is what the driver returned, no database is bound and the
  registry is empty. If the discovery of the collection names fails, the failure is
  written to the log as a warning and nothing else comes of it: the error returned is nil.
  The registry, though, is not emptied: the loop runs over the names the failed call
  still returned, so the client holds one collection for each of them, in their order;
  it is empty exactly when the call returned no name.

  First the case that refutes the empty registry: a listing that fails after it has
  produced the name \<open>users\<close>.
\<close>

theorem NewStorage_discovery_failure_counterexample:
  "Database_ListCollectionNames
       (scripted_driver None None ([''users''], Some (DriverError ''cursor lost'')))
       (Some ''db'') (WithTimeout Background 10000000000) ()
     = (([''users''], Some (DriverError ''cursor lost'')), ())
   \<and> snd (fst (NewStorage
         (scripted_driver None None ([''users''], Some (DriverError ''cursor lost'')))
         config0 logger0 sys0)) = None
   \<and> map name (Collections (the (fst (fst (NewStorage
         (scripted_driver None None ([''users''], Some (DriverError ''cursor lost'')))
         config0 logger0 sys0)))))
     = [''users'']
   \<and> Collections (the (fst (fst (NewStorage
         (scripted_driver None None ([''users''], Some (DriverError ''cursor lost'')))
         config0 logger0 sys0)))) \<noteq> []
   \<and> map entry_message (logs (snd (NewStorage
         (scripted_driver None None ([''users''], Some (DriverError ''cursor lost'')))
         config0 logger0 sys0)))
     = [''new client created'', ''client connection established'',
        ''unable to get collection names'']"
  by (simp add: scripted_driver_def config0_def logger0_def sys0_def connection_uri_def
      With_def NewStorage_def write_entry_def Second_def)

text \<open>The claim as the code has it.\<close>

theorem NewStorage_failure_exits:
  "(mongo_NewClient drv (connection_uri c) (env s) = ((inst, Some e), e1) \<longrightarrow>
      NewStorage drv c l s =
        ((Some \<lparr>Instance = inst, Database = None, Collections = [],
                logger = Some (With l [zap_String ''package'' ''mongocrud''])\<rparr>, Some e),
         \<lparr>env = e1,
          logs = logs s @ [write_entry (Some (With l [zap_String ''package'' ''mongocrud'']))
                             ErrorLevel ''new client failed''
                             [zap_String ''func'' ''GetInstance'', zap_Error e]]\<rparr>))
   \<and> (mongo_NewClient drv (connection_uri c) (env s) = ((inst, None), e1)
        \<and> Client_Connect drv inst (WithTimeout Background 10000000000) e1 = (Some e, e2) \<longrightarrow>
      fst (NewStorage drv c l s) =
        (Some \<lparr>Instance = inst, Database = None, Collections = [],
               logger = Some (With l [zap_String ''package'' ''mongocrud''])\<rparr>, Some e)
      \<and> env (snd (NewStorage drv c l s)) = e2
      \<and> last (logs (snd (NewStorage drv c l s))) =
          write_entry (Some (With l [zap_String ''package'' ''mongocrud'']))
            ErrorLevel ''client connection failed''
            [zap_String ''func'' ''GetInstance'', zap_Error e])
   \<and> (mongo_NewClient drv (connection_uri c) (env s) = ((inst, None), e1)
        \<and> Client_Connect drv inst (WithTimeout Background 10000000000) e1 = (None, e2)
        \<and> Database_ListCollectionNames drv (Client_Database drv inst (DatabaseName c))
             (WithTimeout Background 10000000000) e2 = ((names, Some e), e3) \<longrightarrow>
      fst (NewStorage drv c l s) =
        (Some \<lparr>Instance = inst, Database = Client_Database drv inst (DatabaseName c),
               Collections =
                 map (\<lambda>coll. \<lparr>name = coll,
                              collection = Database_Collection drv
                                (Client_Database drv inst (DatabaseName c)) coll\<rparr>) names,
               logger = Some (With l [zap_String ''package'' ''mongocrud''])\<rparr>, None)
      \<and> (Collections (the (fst (fst (NewStorage drv c l s)))) = []) = (names = [])
      \<and> env (snd (NewStorage drv c l s)) = e3
      \<and> last (logs (snd (NewStorage drv c l s))) =
          write_entry (Some (With l [zap_String ''package'' ''mongocrud'']))
            WarnLevel ''unable to get collection names'' [])"
  by (simp add: NewStorage_def Second_def wrap_collections_eq)

theorem NewStorage_failure_exits_witness:
  "fst (NewStorage (scripted_driver (Some (DriverError ''bad uri'')) None ([], None))
          config0 logger0 sys0)
     = (Some \<lparr>Instance = None, Database = None, Collections = [],
              logger = Some \<lparr>logger_fields = [zap_String ''package'' ''mongocrud'']\<rparr>\<rparr>,
        Some (DriverError ''bad uri''))
   \<and> fst (NewStorage (scripted_driver None (Some (DriverError ''timeout'')) ([], None))
          config0 logger0 sys0)
     = (Some \<lparr>Instance = Some ''mongodb+srv://u:p@h.example/db?retryWrites=true&w=majority'',
              Database = None, Collections = [],
              logger = Some \<lparr>logger_fields = [zap_String ''package'' ''mongocrud'']\<rparr>\<rparr>,
        Some (DriverError ''timeout''))
   \<and> fst (NewStorage (scripted_driver None None ([], Some (DriverError ''not authorized'')))
          config0 logger0 sys0)
     = (Some \<lparr>Instance = Some ''mongodb+srv://u:p@h.example/db?retryWrites=true&w=majority'',
              Database = Some ''db'', Collections = [],
              logger = Some \<lparr>logger_fields = [zap_String ''package'' ''mongocrud'']\<rparr>\<rparr>,
        None)
   \<and> map entry_message
        (logs (snd (NewStorage (scripted_driver None None ([], Some (DriverError ''not authorized'')))
                 config0 logger0 sys0)))
     = [''new client created'', ''client connection established'',
        ''unable to get collection names'']
   \<and> snd (fst (NewStorage
         (scripted_driver None None ([''users'', ''items''], Some (DriverError ''cursor lost'')))
         config0 logger0 sys0)) = None
   \<and> map name (Collections (the (fst (fst (NewStorage
         (scripted_driver None None ([''users'', ''items''], Some (DriverError ''cursor lost'')))
         config0 logger0 sys0)))))
     = [''users'', ''items'']"
  using NewStorage_failure_exits [of "scripted_driver (Some (DriverError ''bad uri'')) None ([], None)"
      config0 sys0 None "DriverError ''bad uri''" "()" logger0]
    NewStorage_failure_exits [of "scripted_driver None (Some (DriverError ''timeout'')) ([], None)"
      config0 sys0 "Some ''mongodb+srv://u:p@h.example/db?retryWrites=true&w=majority''"
      "DriverError ''timeout''" "()" logger0 "()"]
    NewStorage_failure_exits [of "scripted_driver None None ([], Some (DriverError ''not authorized''))"
      config0 sys0 "Some ''mongodb+srv://u:p@h.example/db?retryWrites=true&w=majority''"
      "DriverError ''not authorized''" "()" logger0 "()" "[]" "()"]
    NewStorage_failure_exits [of
      "scripted_driver None None ([''users'', ''items''], Some (DriverError ''cursor lost''))"
      config0 sys0 "Some ''mongodb+srv://u:p@h.example/db?retryWrites=true&w=majority''"
      "DriverError ''cursor lost''" "()" logger0 "()" "[''users'', ''items'']" "()"]
  by (simp add: scripted_driver_def config0_def logger0_def sys0_def connection_uri_def
      With_def NewStorage_def write_entry_def Second_def)

text \<open>A bootstrap that succeeds registers the discovered collections in order.\<close>

lemma NewStorage_success_example:
  "map name (Collections (the (fst (fst
       (NewStorage (scripted_driver None None ([''users'', ''items''], None))
          config0 logger0 sys0)))))
     = [''users'', ''items'']"
  using NewStorage_connected [of "scripted_driver None None ([''users'', ''items''], None)"
      config0 sys0 "Some ''mongodb+srv://u:p@h.example/db?retryWrites=true&w=majority''" "()"
      "()" "[''users'', ''items'']" None "()" logger0]
  by (simp add: scripted_driver_def config0_def sys0_def connection_uri_def)

end
